theory Spec2Isabelle
  imports Complex_Main "HOL-Library.Sublist"
begin

section \<open>Data model\<close>

text \<open>
  Exceptions of the Python code that matter to control flow. \<open>Exception msg\<close> stands for
  any exception raised by a collaborator (browser session, network fetch, element access)
  or by \<open>raise Exception(msg)\<close> in the code.
\<close>

datatype exn = StatisticsError | OverflowError | Exception string

text \<open>
  A listing is one JSON object of a snapshot. The scraper writes the first seven fields;
  the analyser adds \<open>z_score\<close> and \<open>flag\<close>. A key that may be missing when the object is
  read back (\<open>'price_sgd' in item\<close>, \<open>h.get('source')\<close>) is an option. Prices are Python
  floats, taken here as real numbers (finite values, no rounding error).
\<close>

record listing =
  title :: string
  price_sgd :: "real option"
  seller :: string
  url :: string
  source :: "string option"
  timestamp :: string
  scrape_method :: string
  z_score :: "real option"
  flag :: "string option"

section \<open>analytics/zscore.py: the score\<close>

text \<open>
  \<open>statistics.mean\<close> and \<open>statistics.stdev\<close> (sample standard deviation, divisor \<open>n - 1\<close>),
  with their \<open>StatisticsError\<close> on too few data points.
\<close>

definition mean :: "real list \<Rightarrow> exn + real" where
  "mean data =
     (if data = [] then Inl StatisticsError
      else Inr (sum_list data / real (length data)))"

definition stdev :: "real list \<Rightarrow> exn + real" where
  "stdev data =
     (if length data < 2 then Inl StatisticsError
      else case mean data of
             Inl e \<Rightarrow> Inl e
           | Inr m \<Rightarrow> Inr (sqrt (sum_list (map (\<lambda>x. (x - m)\<^sup>2) data) / real (length data - 1))))"

text \<open>The list comprehension of \<open>calculate_zscore\<close>: prices that are present and positive.\<close>

definition positive_prices :: "listing list \<Rightarrow> real list" where
  "positive_prices items =
     [the (price_sgd item). item \<leftarrow> items, price_sgd item \<noteq> None \<and> the (price_sgd item) > 0]"

definition calculate_zscore :: "listing list \<Rightarrow> real \<Rightarrow> exn + real" where
  "calculate_zscore items current_price =
     (if length items < 3 then Inr 0
      else
        let prices = positive_prices items in
        if prices = [] then Inr 0
        else
          case mean prices of
            Inl e \<Rightarrow> Inl e
          | Inr mu \<Rightarrow>
              (case (if length prices > 1 then stdev prices else Inr 1) of
                 Inl e \<Rightarrow> Inl e
               | Inr sigma \<Rightarrow>
                   if sigma = 0 then Inr 0
                   else Inr ((current_price - mu) / sigma)))"

text \<open>A listing with only a price and a source, as the scenarios of the specification give them.\<close>

definition priced :: "string \<Rightarrow> real \<Rightarrow> listing" where
  "priced src p =
     \<lparr>title = ''X399'', price_sgd = Some p, seller = ''Unknown'', url = ''https://www.carousell.sg/p/1'',
      source = Some src, timestamp = ''2024-01-01T00:00:00'', scrape_method = ''playwright'',
      z_score = None, flag = None\<rparr>"

definition unpriced :: "string \<Rightarrow> listing" where
  "unpriced src = (priced src 0)\<lparr>price_sgd := None\<rparr>"

section \<open>analytics/zscore.py: loading snapshots\<close>

text \<open>
  The data directory as the analyser sees it: every file below \<open>data_dir\<close> in the order the
  directory walk yields it, with the directories between \<open>data_dir\<close> and the file, its
  name, its modification time, and what \<open>json.load\<close> makes of it (\<open>None\<close> when opening or
  decoding raises; otherwise an array of listing objects).
\<close>

record snapshot_file =
  parent :: "string list"
  name :: string
  st_mtime :: real
  content :: "listing list option"

text \<open>The glob pattern \<open>*.json\<close> on a file name, and \<open>Path.stem\<close> (the name up to its last dot,
  the whole name when that dot is first or last).\<close>

definition matches_json :: "string \<Rightarrow> bool" where
  "matches_json nm = suffix ''.json'' nm"

definition stem :: "string \<Rightarrow> string" where
  "stem nm =
     (let n = length nm; k = length (takeWhile (\<lambda>c. c \<noteq> CHR ''.'') (rev nm))
      in if 0 < k \<and> k + 1 < n then take (n - 1 - k) nm else nm)"

definition rglob_json :: "snapshot_file list \<Rightarrow> snapshot_file list" where
  "rglob_json data_dir = [f \<leftarrow> data_dir. matches_json (name f)]"

definition glob_json :: "snapshot_file list \<Rightarrow> string \<Rightarrow> snapshot_file list" where
  "glob_json data_dir src = [f \<leftarrow> data_dir. parent f = [src] \<and> matches_json (name f)]"

text \<open>
  A naive \<open>datetime\<close> is the number of microseconds since 0001-01-01T00:00:00; the type ends
  with year 9999. \<open>timedelta(days=n)\<close> and the subtraction raise \<open>OverflowError\<close> outside
  their ranges.
\<close>

type_synonym datetime = int

definition max_datetime :: datetime where
  "max_datetime = 3652059 * 86400000000"

definition timedelta_days :: "int \<Rightarrow> exn + int" where
  "timedelta_days days =
     (if \<bar>days\<bar> > 999999999 then Inl OverflowError else Inr (days * 86400000000))"

definition datetime_sub :: "datetime \<Rightarrow> int \<Rightarrow> exn + datetime" where
  "datetime_sub t delta =
     (let r = t - delta in if r < 0 \<or> max_datetime \<le> r then Inl OverflowError else Inr r)"

text \<open>
  The loop of \<open>load_historical_data\<close>. \<open>strptime\<close> is the library's
  \<open>datetime.strptime(_, '%Y-%m-%d_%H-%M')\<close>, \<open>None\<close> when it raises \<open>ValueError\<close>; every
  exception inside the loop body is caught and the file skipped.
\<close>

fun load_files ::
  "(string \<Rightarrow> datetime option) \<Rightarrow> datetime \<Rightarrow> snapshot_file list \<Rightarrow> listing list \<Rightarrow> listing list"
where
  "load_files strptime cutoff [] all_items = all_items"
| "load_files strptime cutoff (json_file # rest) all_items =
     (case strptime (stem (name json_file)) of
        None \<Rightarrow> load_files strptime cutoff rest all_items
      | Some file_time \<Rightarrow>
          if file_time < cutoff then load_files strptime cutoff rest all_items
          else
            (case content json_file of
               None \<Rightarrow> load_files strptime cutoff rest all_items
             | Some items \<Rightarrow> load_files strptime cutoff rest (all_items @ items)))"

definition load_historical_data ::
  "(string \<Rightarrow> datetime option) \<Rightarrow> datetime \<Rightarrow> snapshot_file list \<Rightarrow> int \<Rightarrow> exn + listing list"
where
  "load_historical_data strptime utcnow data_dir lookback_days =
     (case timedelta_days lookback_days of
        Inl e \<Rightarrow> Inl e
      | Inr delta \<Rightarrow>
          (case datetime_sub utcnow delta of
             Inl e \<Rightarrow> Inl e
           | Inr cutoff \<Rightarrow> Inr (load_files strptime cutoff (rglob_json data_dir) [])))"

section \<open>analytics/zscore.py: flagging deals\<close>

text \<open>\<open>max(json_files, key=mtime)\<close>: the first file with the largest modification time.\<close>

fun max_by_mtime :: "snapshot_file \<Rightarrow> snapshot_file list \<Rightarrow> snapshot_file" where
  "max_by_mtime best [] = best"
| "max_by_mtime best (f # fs) =
     (if st_mtime best < st_mtime f then max_by_mtime f fs else max_by_mtime best fs)"

text \<open>\<open>round(z, 2)\<close>: to the nearest hundredth, a tie going to the even neighbour.\<close>

definition round_half_even :: "real \<Rightarrow> int" where
  "round_half_even x =
     (let f = \<lfloor>x\<rfloor>; d = x - of_int f
      in if d < 1 / 2 then f else if 1 / 2 < d then f + 1 else if even f then f else f + 1)"

definition round2 :: "real \<Rightarrow> real" where
  "round2 z = of_int (round_half_even (z * 100)) / 100"

text \<open>The flag literal: a fire emoji (its four UTF-8 bytes) and the words.\<close>

definition great_deal_flag :: string where
  "great_deal_flag = [CHR 0xF0, CHR 0x9F, CHR 0x94, CHR 0xA5] @ '' GREAT DEAL''"

definition default_z_threshold :: real where
  "default_z_threshold = - 1.5"

text \<open>The loop over the items of one source's latest snapshot.\<close>

fun scan_items ::
  "listing list \<Rightarrow> string \<Rightarrow> real \<Rightarrow> listing list \<Rightarrow> listing list \<Rightarrow> exn + listing list"
where
  "scan_items historical src z_threshold [] deals = Inr deals"
| "scan_items historical src z_threshold (item # rest) deals =
     (if price_sgd item = None \<or> the (price_sgd item) \<le> 0
      then scan_items historical src z_threshold rest deals
      else
        let source_history = [h \<leftarrow> historical. source h = Some src] in
        case calculate_zscore source_history (the (price_sgd item)) of
          Inl e \<Rightarrow> Inl e
        | Inr z \<Rightarrow>
            if z < z_threshold
            then scan_items historical src z_threshold rest
                   (deals @ [item\<lparr>z_score := Some (round2 z), flag := Some great_deal_flag\<rparr>])
            else scan_items historical src z_threshold rest deals)"

text \<open>
  The loop over the sources. A source directory that does not exist and one without a
  \<open>*.json\<close> file are both passed over, so the model has one test for the two.
\<close>

fun scan_sources ::
  "snapshot_file list \<Rightarrow> listing list \<Rightarrow> real \<Rightarrow> string list \<Rightarrow> listing list \<Rightarrow> exn + listing list"
where
  "scan_sources data_dir historical z_threshold [] deals = Inr deals"
| "scan_sources data_dir historical z_threshold (src # rest) deals =
     (case glob_json data_dir src of
        [] \<Rightarrow> scan_sources data_dir historical z_threshold rest deals
      | f # fs \<Rightarrow>
          (case content (max_by_mtime f fs) of
             None \<Rightarrow> scan_sources data_dir historical z_threshold rest deals
           | Some current_items \<Rightarrow>
               (case scan_items historical src z_threshold current_items deals of
                  Inl e \<Rightarrow> Inl e
                | Inr deals' \<Rightarrow> scan_sources data_dir historical z_threshold rest deals')))"

definition sources :: "string list" where
  "sources = [''carousell'', ''ebay'', ''slickdeals'']"

definition analyze_deals ::
  "(string \<Rightarrow> datetime option) \<Rightarrow> datetime \<Rightarrow> snapshot_file list \<Rightarrow> int \<Rightarrow> real \<Rightarrow> exn + listing list"
where
  "analyze_deals strptime utcnow data_dir lookback_days z_threshold =
     (case load_historical_data strptime utcnow data_dir lookback_days of
        Inl e \<Rightarrow> Inl e
      | Inr historical \<Rightarrow> scan_sources data_dir historical z_threshold sources [])"

section \<open>The library's strptime for the snapshot format\<close>

text \<open>
  \<open>datetime.strptime(s, '%Y-%m-%d_%H-%M')\<close> as CPython reads the format: four digits for
  the year, one or two for month, day, hour and minute within their ranges (a day may be
  a space and a digit), the separators literally, nothing left over, and a date that
  exists. The result is the time in microseconds since 0001-01-01T00:00:00.
\<close>

definition is_digit :: "char \<Rightarrow> bool" where
  "is_digit c = (48 \<le> (of_char c :: nat) \<and> (of_char c :: nat) \<le> 57)"

definition dec_value :: "string \<Rightarrow> nat" where
  "dec_value ds = foldl (\<lambda>n c. 10 * n + (of_char c - 48)) 0 ds"

definition split_at :: "char \<Rightarrow> string \<Rightarrow> (string \<times> string) option" where
  "split_at sep s =
     (if sep \<in> set s
      then Some (takeWhile (\<lambda>c. c \<noteq> sep) s, tl (dropWhile (\<lambda>c. c \<noteq> sep) s))
      else None)"

definition digit_field :: "string \<Rightarrow> nat \<Rightarrow> nat \<Rightarrow> nat option" where
  "digit_field s lo hi =
     (if s \<noteq> [] \<and> length s \<le> 2 \<and> list_all is_digit s \<and> lo \<le> dec_value s \<and> dec_value s \<le> hi
      then Some (dec_value s) else None)"

definition day_field :: "string \<Rightarrow> nat option" where
  "day_field s =
     (if length s = 2 \<and> hd s = CHR '' '' then digit_field (tl s) 1 9 else digit_field s 1 31)"

definition year_field :: "string \<Rightarrow> nat option" where
  "year_field s =
     (if length s = 4 \<and> list_all is_digit s \<and> 1 \<le> dec_value s then Some (dec_value s) else None)"

definition is_leap :: "nat \<Rightarrow> bool" where
  "is_leap y = (y mod 4 = 0 \<and> (y mod 100 \<noteq> 0 \<or> y mod 400 = 0))"

definition days_in_month :: "nat \<Rightarrow> nat \<Rightarrow> nat" where
  "days_in_month y m =
     (if m = 2 then (if is_leap y then 29 else 28)
      else if m = 4 \<or> m = 6 \<or> m = 9 \<or> m = 11 then 30 else 31)"

definition days_before_month :: "nat \<Rightarrow> nat \<Rightarrow> nat" where
  "days_before_month y m = sum_list (map (days_in_month y) [1..<m])"

definition days_before_year :: "nat \<Rightarrow> nat" where
  "days_before_year y = (y - 1) * 365 + (y - 1) div 4 - (y - 1) div 100 + (y - 1) div 400"

definition minute_stamp :: "nat \<Rightarrow> nat \<Rightarrow> nat \<Rightarrow> nat \<Rightarrow> nat \<Rightarrow> datetime" where
  "minute_stamp y m d h mi =
     int (((days_before_year y + days_before_month y m + (d - 1)) * 24 + h) * 60 + mi) * 60000000"

definition strptime_stamp :: "string \<Rightarrow> datetime option" where
  "strptime_stamp s =
     (case split_at (CHR ''-'') s of
        None \<Rightarrow> None
      | Some (ys, r1) \<Rightarrow>
     (case split_at (CHR ''-'') r1 of
        None \<Rightarrow> None
      | Some (ms, r2) \<Rightarrow>
     (case split_at (CHR ''_'') r2 of
        None \<Rightarrow> None
      | Some (ds, r3) \<Rightarrow>
     (case split_at (CHR ''-'') r3 of
        None \<Rightarrow> None
      | Some (hs, mins) \<Rightarrow>
     (case (year_field ys, digit_field ms 1 12, day_field ds, digit_field hs 0 23,
            digit_field mins 0 59) of
        (Some y, Some m, Some d, Some h, Some mi) \<Rightarrow>
          if d \<le> days_in_month y m then Some (minute_stamp y m d h mi) else None
      | _ \<Rightarrow> None)))))"

section \<open>scrapers/carousell.py: the primary strategy\<close>

text \<open>
  Strings the scraper inspects are lists of code points below 256. \<open>str_delete old s\<close> is
  \<open>s.replace(old, '')\<close> (occurrences found from the left, not overlapping) and
  \<open>str_strip\<close> is \<open>s.strip()\<close> with the white space of \<open>str.isspace\<close>.
\<close>

function str_delete :: "string \<Rightarrow> string \<Rightarrow> string" where
  "str_delete old [] = []"
| "str_delete old (c # cs) =
     (if old \<noteq> [] \<and> prefix old (c # cs) then str_delete old (drop (length old) (c # cs))
      else c # str_delete old cs)"
  by pat_completeness auto
termination
  by (relation "measure (\<lambda>(old, s). length s)") (auto simp: Suc_le_eq)

definition is_space :: "char \<Rightarrow> bool" where
  "is_space c =
     (let n = (of_char c :: nat)
      in (9 \<le> n \<and> n \<le> 13) \<or> (28 \<le> n \<and> n \<le> 32) \<or> n = 133 \<or> n = 160)"

definition str_strip :: "string \<Rightarrow> string" where
  "str_strip s = rev (dropWhile is_space (rev (dropWhile is_space s)))"

text \<open>
  The price of a card. \<open>py_float\<close> is the builtin \<open>float\<close> on strings, \<open>None\<close> when it raises
  \<open>ValueError\<close>.
\<close>

definition clean_price :: "string \<Rightarrow> string" where
  "clean_price price_text = str_strip (str_delete '','' (str_delete ''S$'' price_text))"

definition parse_price :: "(string \<Rightarrow> real option) \<Rightarrow> string \<Rightarrow> real" where
  "parse_price py_float price_text =
     (case py_float (clean_price price_text) of Some v \<Rightarrow> v | None \<Rightarrow> 0)"

text \<open>
  What the browser gives for one listing card: the inner text of the title, price and
  seller elements (\<open>None\<close> when the selector finds no element) and the link element with
  its \<open>href\<close> attribute, which may be absent. An operation on a card that raises makes the
  card \<open>Inl\<close>.
\<close>

record card =
  title_el :: "string option"
  price_el :: "string option"
  link_el :: "string option option"
  seller_el :: "string option"

fun parse_cards ::
  "(string \<Rightarrow> real option) \<Rightarrow> string \<Rightarrow> (exn + card) list \<Rightarrow> listing list \<Rightarrow> listing list"
where
  "parse_cards py_float utcnow_iso [] results = results"
| "parse_cards py_float utcnow_iso (Inl e # cards) results =
     parse_cards py_float utcnow_iso cards results"
| "parse_cards py_float utcnow_iso (Inr c # cards) results =
     (if title_el c = None \<or> price_el c = None \<or> link_el c = None
      then parse_cards py_float utcnow_iso cards results
      else
        let title_text = the (title_el c);
            price_text = the (price_el c);
            href = (case the (link_el c) of None \<Rightarrow> ''None'' | Some h \<Rightarrow> h);
            seller_text = (case seller_el c of None \<Rightarrow> ''Unknown'' | Some s \<Rightarrow> s);
            price = parse_price py_float price_text;
            full_url = ''https://www.carousell.sg'' @ href
        in parse_cards py_float utcnow_iso cards
             (results @
              [\<lparr>title = title_text, price_sgd = Some price, seller = seller_text, url = full_url,
                source = Some ''carousell'', timestamp = utcnow_iso, scrape_method = ''playwright'',
                z_score = None, flag = None\<rparr>]))"

text \<open>
  One rendering session, as the browser answers it: an exception while the browser, context
  or page is set up, one from routing or navigation, one from waiting for the first card
  (the timeout), the page content, and the cards found. Closing the browser is taken not
  to raise.
\<close>

record session =
  launch_error :: "exn option"
  goto_error :: "exn option"
  wait_error :: "exn option"
  page_content :: "exn + string"
  listing_cards :: "exn + (exn + card) list"

type_synonym proxy_config = "(string \<times> string option \<times> string option) option"

record response =
  status_code :: int
  response_text :: string

text \<open>
  The world outside the scraper: the browser (a session for a proxy configuration and an
  address), the impersonating HTTP client (whether it could be imported, and what a GET of
  an address through the given proxies returns or raises), and the clock's ISO string.
\<close>

record world =
  open_page :: "proxy_config \<Rightarrow> string \<Rightarrow> session"
  curl_cffi_available :: bool
  http_get :: "string \<Rightarrow> (string \<times> string) option \<Rightarrow> exn + response"
  utcnow_iso :: string

text \<open>The f-string of the search address, shared by both strategies.\<close>

definition search_address :: "string \<Rightarrow> string" where
  "search_address search_query = ''https://www.carousell.sg/search/'' @ search_query"

definition scrape_playwright ::
  "(string \<Rightarrow> real option) \<Rightarrow> world \<Rightarrow> string \<Rightarrow> proxy_config \<Rightarrow> nat \<Rightarrow> exn + listing list"
where
  "scrape_playwright py_float w search_query proxy_conf max_results =
     (let search_url = search_address search_query;
          page = open_page w proxy_conf search_url
      in case launch_error page of
           Some e \<Rightarrow> Inl e
         | None \<Rightarrow>
        (case goto_error page of
           Some e \<Rightarrow> Inl e
         | None \<Rightarrow>
        (case wait_error page of
           Some timeout \<Rightarrow>
             (case page_content page of
                Inl e \<Rightarrow> Inl e
              | Inr html \<Rightarrow>
                  if sublist ''No results found'' html then Inr []
                  else Inl (Exception ''Selector timeout - possible change in structure or blocking''))
         | None \<Rightarrow>
             (case listing_cards page of
                Inl e \<Rightarrow> Inl e
              | Inr cards \<Rightarrow>
                  Inr (parse_cards py_float (utcnow_iso w) (take max_results cards) [])))))"

section \<open>scrapers/carousell.py: the backup strategy and the orchestrator\<close>

text \<open>The body of the \<open>try\<close> block of \<open>scrape_curl_cffi\<close>, then the function with its handler.\<close>

definition curl_cffi_try ::
  "world \<Rightarrow> string \<Rightarrow> (string \<times> string) option \<Rightarrow> exn + listing list"
where
  "curl_cffi_try w search_url proxies =
     (case http_get w search_url proxies of
        Inl e \<Rightarrow> Inl e
      | Inr response \<Rightarrow>
          if status_code response \<noteq> 200 then Inr []
          else if sublist ''Access Denied'' (response_text response)
                  \<or> sublist ''Cloudflare'' (response_text response) then Inr []
          else Inr [])"

text \<open>The \<open>proxies\<close> dictionary: the proxy string for https and for http, or \<open>None\<close> when the
  string is absent or empty.\<close>

definition proxies_dict :: "string option \<Rightarrow> (string \<times> string) option" where
  "proxies_dict proxy_url =
     (if proxy_url \<noteq> None \<and> proxy_url \<noteq> Some [] then Some (the proxy_url, the proxy_url)
      else None)"

definition scrape_curl_cffi ::
  "world \<Rightarrow> string \<Rightarrow> string option \<Rightarrow> nat \<Rightarrow> exn + listing list"
where
  "scrape_curl_cffi w search_query proxy_url max_results =
     (if \<not> curl_cffi_available w then Inr []
      else
        let search_url = search_address search_query;
            proxies = proxies_dict proxy_url
        in case curl_cffi_try w search_url proxies of
             Inl e \<Rightarrow> Inr []
           | Inr results \<Rightarrow> Inr results)"

text \<open>
  The loop of \<open>main_async\<close> over the configured queries. Besides \<open>all_results\<close> the model
  keeps the calls made to the two strategies, in order.
\<close>

datatype call = Primary string | Backup string

fun main_loop ::
  "(string \<Rightarrow> real option) \<Rightarrow> world \<Rightarrow> string option \<Rightarrow> proxy_config \<Rightarrow> string list \<Rightarrow>
   listing list \<times> call list \<Rightarrow> exn + listing list \<times> call list"
where
  "main_loop py_float w proxy_url proxy_conf [] (all_results, calls) = Inr (all_results, calls)"
| "main_loop py_float w proxy_url proxy_conf (query # rest) (all_results, calls) =
     (case scrape_playwright py_float w query proxy_conf 50 of
        Inr results \<Rightarrow>
          main_loop py_float w proxy_url proxy_conf rest
            (all_results @ results, calls @ [Primary query])
      | Inl e \<Rightarrow>
          (case scrape_curl_cffi w query proxy_url 50 of
             Inl e' \<Rightarrow> Inl e'
           | Inr backup_results \<Rightarrow>
               main_loop py_float w proxy_url proxy_conf rest
                 (if backup_results \<noteq> [] then all_results @ backup_results else all_results,
                  calls @ [Primary query, Backup query])))"

section \<open>Vocabulary of the properties\<close>

text \<open>A listing qualifies for statistics when its price is present and positive.\<close>

definition pos_price :: "listing \<Rightarrow> bool" where
  "pos_price item = (case price_sgd item of None \<Rightarrow> False | Some p \<Rightarrow> 0 < p)"

text \<open>
  The files the loader is meant to take, for a cutoff: matched by the glob, with a stem that
  parses to a time not before the cutoff, and with content that decodes.
\<close>

definition included :: "(string \<Rightarrow> datetime option) \<Rightarrow> datetime \<Rightarrow> snapshot_file \<Rightarrow> bool" where
  "included strptime cutoff f =
     (matches_json (name f)
      \<and> (case strptime (stem (name f)) of None \<Rightarrow> False | Some t \<Rightarrow> cutoff \<le> t)
      \<and> content f \<noteq> None)"


text \<open>
  \<open>float\<close> on the strings the examples need: a run of decimal digits has its decimal
  value, and a string with any other character raises \<open>ValueError\<close>.
\<close>

definition float_of_digits :: "string \<Rightarrow> real option" where
  "float_of_digits s =
     (if s \<noteq> [] \<and> list_all is_digit s then Some (real (dec_value s)) else None)"

section \<open>Scenarios\<close>

definition carousell_file :: "string \<Rightarrow> real \<Rightarrow> listing list option \<Rightarrow> snapshot_file" where
  "carousell_file nm mtime items =
     \<lparr>parent = [''carousell''], name = nm, st_mtime = mtime, content = items\<rparr>"

definition historical_file :: snapshot_file where
  "historical_file =
     carousell_file ''2024-01-01_00-00.json'' 1
       (Some [priced ''carousell'' 100, priced ''carousell'' 120, priced ''carousell'' 110])"

definition current_file :: "string \<Rightarrow> snapshot_file" where
  "current_file nm = carousell_file nm 2 (Some [priced ''carousell'' 60])"

definition jan10_2024 :: datetime where
  "jan10_2024 = minute_stamp 2024 1 10 0 0"

definition future_file :: snapshot_file where
  "future_file = carousell_file ''2099-01-01_00-00.json'' 1 (Some [priced ''carousell'' 77])"

definition stale_file :: snapshot_file where
  "stale_file = carousell_file ''2023-01-01_00-00.json'' 1 (Some [priced ''carousell'' 55])"

definition notes_file :: snapshot_file where
  "notes_file = carousell_file ''notes.json'' 1 (Some [priced ''carousell'' 66])"

definition broken_file :: snapshot_file where
  "broken_file = carousell_file ''2024-01-09_00-00.json'' 1 None"

text \<open>
  Worlds for the scraper: the browser gives the session \<open>blocked_session\<close> (the wait for a
  card times out on a page without the empty-state text) for the query \<open>x399\<close> and
  \<open>empty_session\<close> (the same time-out on a page that says \<open>No results found\<close>) for every other
  query; the HTTP client is present or not and answers every GET alike.
\<close>

definition blocked_session :: session where
  "blocked_session =
     \<lparr>launch_error = None, goto_error = None, wait_error = Some (Exception ''Timeout 15000ms exceeded''),
      page_content = Inr ''<html>Please verify you are human</html>'', listing_cards = Inr []\<rparr>"

definition empty_session :: session where
  "empty_session =
     \<lparr>launch_error = None, goto_error = None, wait_error = Some (Exception ''Timeout 15000ms exceeded''),
      page_content = Inr ''<html>No results found</html>'', listing_cards = Inr []\<rparr>"

definition scraper_world :: "bool \<Rightarrow> (exn + response) \<Rightarrow> world" where
  "scraper_world available answer =
     \<lparr>open_page = (\<lambda>conf address.
         if address = search_address ''x399'' then blocked_session else empty_session),
      curl_cffi_available = available,
      http_get = (\<lambda>address proxies. answer),
      utcnow_iso = ''2024-01-10T00:00:00''\<rparr>"

definition thin_pool :: "listing list" where
  "thin_pool = [priced ''carousell'' 100, priced ''carousell'' 0, unpriced ''carousell'']"

definition pair_pool :: "listing list" where
  "pair_pool = [priced ''carousell'' 100, priced ''carousell'' 120]"

definition flat_pool :: "listing list" where
  "flat_pool = [priced ''carousell'' 100, priced ''carousell'' 100, priced ''carousell'' 100]"

definition spread_pool :: "listing list" where
  "spread_pool =
     [priced ''carousell'' 100, priced ''carousell'' 110, priced ''carousell'' 90,
      priced ''carousell'' 105, priced ''carousell'' 95]"

section \<open>Properties of the score\<close>

lemma positive_prices_Nil [simp]: "positive_prices [] = []"
  by (simp add: positive_prices_def)

lemma positive_prices_Cons:
  "positive_prices (item # items) =
     (case price_sgd item of
        None \<Rightarrow> positive_prices items
      | Some p \<Rightarrow> if p > 0 then p # positive_prices items else positive_prices items)"
  by (simp add: positive_prices_def split: option.splits)

lemma positive_prices_priced [simp]:
  "positive_prices (priced src p # items) =
     (if p > 0 then p # positive_prices items else positive_prices items)"
  by (simp add: positive_prices_Cons priced_def)

lemma positive_prices_unpriced [simp]:
  "positive_prices (unpriced src # items) = positive_prices items"
  by (simp add: positive_prices_Cons unpriced_def priced_def)

lemma positive_prices_append:
  "positive_prices (xs @ ys) = positive_prices xs @ positive_prices ys"
  by (simp add: positive_prices_def)

lemma not_pos_price_iff: "\<not> pos_price j \<longleftrightarrow> price_sgd j = None \<or> the (price_sgd j) \<le> 0"
  by (auto simp: pos_price_def split: option.splits)

lemma pos_price_priced [simp]: "pos_price (priced src p) \<longleftrightarrow> 0 < p"
  by (simp add: pos_price_def priced_def)

lemma pos_price_flagged [simp]: "pos_price (x\<lparr>z_score := a, flag := b\<rparr>) = pos_price x"
  by (simp add: pos_price_def)

lemma positive_prices_skip:
  assumes "\<not> pos_price j"
  shows "positive_prices (xs @ j # ys) = positive_prices (xs @ ys)"
  using assms
  by (auto simp: positive_prices_append positive_prices_Cons pos_price_def split: option.splits)

lemma calculate_zscore_same_prices:
  assumes "positive_prices xs = positive_prices ys" and "length xs < 3 \<longleftrightarrow> length ys < 3"
  shows "calculate_zscore xs c = calculate_zscore ys c"
  using assms by (simp add: calculate_zscore_def)

lemma calculate_zscore_skip:
  assumes "\<not> pos_price j" and "3 \<le> length (xs @ ys)"
  shows "calculate_zscore (xs @ j # ys) c = calculate_zscore (xs @ ys) c"
  using assms(2) positive_prices_skip[OF assms(1)]
  by (intro calculate_zscore_same_prices) auto

text \<open>The guards of \<open>calculate_zscore\<close> keep both library calls inside their domains.\<close>

lemma calculate_zscore_returns: "\<exists>z. calculate_zscore items c = Inr z"
  by (auto simp: calculate_zscore_def Let_def mean_def stdev_def split: sum.splits)

lemma stdev_constant:
  assumes "\<forall>p\<in>set ps. p = v" and "2 \<le> length ps"
  shows "stdev ps = Inr 0"
proof -
  have ne: "ps \<noteq> []" using assms(2) by auto
  have eq: "ps = replicate (length ps) v"
    using assms(1) by (simp add: replicate_length_same)
  have total: "sum_list ps = real (length ps) * v"
    by (subst eq) (simp add: sum_list_replicate)
  have m: "mean ps = Inr v" using ne by (simp add: mean_def total)
  have "map (\<lambda>x. (x - v)\<^sup>2) ps = replicate (length ps) 0"
    using assms(1) by (intro replicate_eqI) auto
  then have "sum_list (map (\<lambda>x. (x - v)\<^sup>2) ps) = 0"
    by (simp add: sum_list_replicate)
  then show ?thesis using assms(2) by (simp add: stdev_def m)
qed

lemma zero_stdev_neutral:
  assumes "stdev (positive_prices items) = Inr 0"
  shows "calculate_zscore items c = Inr 0"
proof -
  have two: "2 \<le> length (positive_prices items)"
    using assms by (auto simp: stdev_def split: if_splits)
  then have "positive_prices items \<noteq> []" by auto
  then show ?thesis using assms two
    by (auto simp: calculate_zscore_def Let_def mean_def)
qed

lemma sqrt_spread_bounds: "79 / 10 < sqrt (125 / 2)" "sqrt (125 / 2) < 791 / 100"
proof -
  have "(79 / 10 :: real)\<^sup>2 < 125 / 2" by (simp add: power2_eq_square)
  then show "79 / 10 < sqrt (125 / 2)" by (rule real_less_rsqrt)
  have "(125 / 2 :: real) < (791 / 100)\<^sup>2" by (simp add: power2_eq_square)
  then show "sqrt (125 / 2) < 791 / 100" by (intro real_less_lsqrt) auto
qed

lemma spread_zscore: "calculate_zscore spread_pool 80 = Inr (- 20 / sqrt (125 / 2))"
  by (simp add: spread_pool_def calculate_zscore_def mean_def stdev_def)

lemma spread_stdev: "stdev (positive_prices spread_pool) = Inr (sqrt (125 / 2))"
  by (simp add: spread_pool_def mean_def stdev_def)

lemma spread_zscore_bounds:
  "- 2535 / 1000 < - 20 / sqrt (125 / 2)" "- 20 / sqrt (125 / 2) < - 2525 / 1000"
  using sqrt_spread_bounds by (simp_all add: field_simps)

lemma spread_zscore_rounded: "round2 (- 20 / sqrt (125 / 2)) = - 253 / 100"
proof -
  let ?x = "- 20 / sqrt (125 / 2) * 100"
  have a: "- 253.5 < ?x" "?x < - 252.5" using spread_zscore_bounds by simp_all
  have "\<lfloor>?x\<rfloor> = - 254 \<or> \<lfloor>?x\<rfloor> = - 253" using a by linarith
  then show ?thesis
    using a unfolding round2_def round_half_even_def Let_def by auto
qed

lemma round2_minus_five: "round2 (- 5) = - 5"
  by (simp add: round2_def round_half_even_def)

lemma source_filter_priced: "[h \<leftarrow> map (priced s) ps. source h = Some s] = map (priced s) ps"
  by (induction ps) (simp_all add: priced_def)

lemma price_sgd_priced [simp]: "price_sgd (priced s p) = Some p"
  by (simp add: priced_def)

text \<open>
  Claim C2, as amended. The sample-count gate of \<open>calculate_zscore\<close> counts the listings of
  the source's historical pool before the price filter: with fewer than three listings of
  any price, or with no listing of positive price, the score is the neutral 0.0 whatever the
  current price.
\<close>

theorem neutral_below_three_listings:
  assumes "length items < 3 \<or> positive_prices items = []"
  shows "calculate_zscore items current_price = Inr 0"
  using assms by (auto simp: calculate_zscore_def)

theorem neutral_below_three_listings_witness:
  "length pair_pool < 3 \<and> calculate_zscore pair_pool 60 = Inr 0"
proof -
  have h: "length pair_pool < 3 \<or> positive_prices pair_pool = []"
    by (simp add: pair_pool_def)
  show ?thesis
    using neutral_below_three_listings[OF h, of 60] by (simp add: pair_pool_def)
qed

text \<open>
  Claim C2 as stated fails: a pool of three listings of which one has a positive price (100)
  has fewer than three qualifying samples, passes the gate, takes sigma = 1.0 and scores a
  current price of 50 at -50.
\<close>

theorem neutral_below_three_qualifying_counterexample:
  "length (positive_prices thin_pool) < 3 \<and> calculate_zscore thin_pool 50 = Inr (- 50)"
  by (simp add: thin_pool_def calculate_zscore_def mean_def)

text \<open>
  Claim C7, as amended. For the pool 100, 110, 90, 105, 95 the sample standard deviation is
  the square root of 62.5, about 7.91, the score of a current price of 80 is -20 divided by
  it, which rounds to -2.53, and with the default threshold -1.5 the listing is flagged.
\<close>

theorem spread_pool_score:
  "stdev (positive_prices spread_pool) = Inr (sqrt (125 / 2))
   \<and> 7.90 < sqrt (125 / 2) \<and> sqrt (125 / 2) < 7.91
   \<and> calculate_zscore spread_pool 80 = Inr (- 20 / sqrt (125 / 2))
   \<and> round2 (- 20 / sqrt (125 / 2)) = - 2.53
   \<and> scan_items spread_pool ''carousell'' default_z_threshold [priced ''carousell'' 80] []
        = Inr [(priced ''carousell'' 80)\<lparr>z_score := Some (- 2.53), flag := Some great_deal_flag\<rparr>]"
proof -
  define z where "z = - 20 / sqrt (125 / 2)"
  have f: "[h \<leftarrow> spread_pool. source h = Some ''carousell''] = spread_pool"
    using source_filter_priced[of "''carousell''" "[100, 110, 90, 105, 95]"]
    by (simp add: spread_pool_def)
  have c: "calculate_zscore spread_pool 80 = Inr z"
    unfolding z_def by (rule spread_zscore)
  have lt: "z < default_z_threshold"
    unfolding z_def using spread_zscore_bounds(2) by (simp add: default_z_threshold_def)
  have r: "round2 z = - 2.53"
    unfolding z_def using spread_zscore_rounded by simp
  have "scan_items spread_pool ''carousell'' default_z_threshold [priced ''carousell'' 80] []
        = Inr [(priced ''carousell'' 80)\<lparr>z_score := Some (- 2.53), flag := Some great_deal_flag\<rparr>]"
    using lt by (simp add: f c r)
  then show ?thesis
    using spread_stdev sqrt_spread_bounds c r unfolding z_def by simp
qed

theorem spread_pool_score_witness:
  "calculate_zscore spread_pool 80 = Inr (- 20 / sqrt (125 / 2))
   \<and> round2 (- 20 / sqrt (125 / 2)) = - 2.53"
  using spread_pool_score by blast

text \<open>
  Claim C7 as stated fails: the score differs from -2.31 by more than 0.2 and the sample
  standard deviation from 8.66 by more than 0.7.
\<close>

theorem spread_pool_score_counterexample:
  "calculate_zscore spread_pool 80 = Inr (- 20 / sqrt (125 / 2))
   \<and> \<not> \<bar>- 20 / sqrt (125 / 2) - (- 2.31)\<bar> < 0.2
   \<and> stdev (positive_prices spread_pool) = Inr (sqrt (125 / 2))
   \<and> \<not> \<bar>sqrt (125 / 2) - 8.66\<bar> < 0.7"
  using spread_zscore spread_stdev spread_zscore_bounds sqrt_spread_bounds by simp

text \<open>
  Claim C8. When the qualifying prices of a pool (two or more of them) are all the same,
  their sample standard deviation is 0; and whenever that standard deviation is 0 the score
  is the neutral 0.0 for every current price. The pool 100, 100, 100 with current price 50
  scores 0.0.
\<close>

theorem zero_variance_neutral:
  "((\<forall>p\<in>set (positive_prices items). p = v) \<and> 2 \<le> length (positive_prices items)
      \<longrightarrow> stdev (positive_prices items) = Inr 0)
   \<and> (stdev (positive_prices items) = Inr 0 \<longrightarrow> calculate_zscore items c = Inr 0)
   \<and> calculate_zscore flat_pool 50 = Inr 0"
proof -
  have "stdev (positive_prices flat_pool) = Inr 0"
    by (intro stdev_constant[where v = 100]) (simp_all add: flat_pool_def)
  then have "calculate_zscore flat_pool 50 = Inr 0" by (rule zero_stdev_neutral)
  then show ?thesis using stdev_constant zero_stdev_neutral by blast
qed

theorem zero_variance_neutral_witness:
  "stdev (positive_prices flat_pool) = Inr 0 \<and> calculate_zscore flat_pool 7 = Inr 0"
proof -
  have a: "(\<forall>p\<in>set (positive_prices flat_pool). p = 100) \<and> 2 \<le> length (positive_prices flat_pool)"
    by (simp add: flat_pool_def)
  show ?thesis using a zero_variance_neutral[of flat_pool 100 7] by blast
qed

section \<open>Properties of the loader and of the analysis\<close>

lemma load_files_eq:
  "load_files strptime cutoff fs acc =
     acc @ concat (map (\<lambda>f. the (content f))
       [f \<leftarrow> fs. (case strptime (stem (name f)) of None \<Rightarrow> False | Some t \<Rightarrow> cutoff \<le> t)
                \<and> content f \<noteq> None])"
  by (induction fs arbitrary: acc) (auto split: option.splits)

lemma cutoff_in_range:
  assumes "\<bar>days\<bar> \<le> 999999999" and "0 \<le> utcnow - days * 86400000000"
    and "utcnow - days * 86400000000 < max_datetime"
  shows "load_historical_data strptime utcnow data_dir days =
           Inr (load_files strptime (utcnow - days * 86400000000) (rglob_json data_dir) [])"
  using assms
  by (simp add: load_historical_data_def timedelta_days_def datetime_sub_def Let_def)

lemma load_historical_data_eq:
  assumes "\<bar>days\<bar> \<le> 999999999" and "0 \<le> utcnow - days * 86400000000"
    and "utcnow - days * 86400000000 < max_datetime"
  shows "load_historical_data strptime utcnow data_dir days =
           Inr (concat (map (\<lambda>f. the (content f))
                  [f \<leftarrow> data_dir. included strptime (utcnow - days * 86400000000) f]))"
proof -
  have "(\<lambda>f. matches_json (name f)
             \<and> (case strptime (stem (name f)) of None \<Rightarrow> False
                 | Some t \<Rightarrow> utcnow - days * 86400000000 \<le> t)
             \<and> content f \<noteq> None)
        = included strptime (utcnow - days * 86400000000)"
    by (auto simp: included_def fun_eq_iff)
  then show ?thesis
    by (simp add: cutoff_in_range[OF assms] load_files_eq rglob_json_def)
qed

lemma load_historical_data_overflow:
  assumes "\<not> (\<bar>days\<bar> \<le> 999999999 \<and> 0 \<le> utcnow - days * 86400000000
              \<and> utcnow - days * 86400000000 < max_datetime)"
  shows "load_historical_data strptime utcnow data_dir days = Inl OverflowError"
  using assms
  by (auto simp: load_historical_data_def timedelta_days_def datetime_sub_def Let_def)

lemma digits: "is_digit CHR ''0''" "is_digit CHR ''1''" "is_digit CHR ''2''" "is_digit CHR ''3''"
  "is_digit CHR ''4''" "is_digit CHR ''5''" "is_digit CHR ''6''" "is_digit CHR ''7''"
  "is_digit CHR ''8''" "is_digit CHR ''9''"
  by (simp_all add: is_digit_def)

lemmas stamp_defs = strptime_stamp_def split_at_def year_field_def digit_field_def day_field_def
  dec_value_def minute_stamp_def days_before_year_def days_before_month_def days_in_month_def
  is_leap_def

lemma jan10_2024_value: "jan10_2024 = 63840441600000000"
  unfolding jan10_2024_def by (simp add: stamp_defs)

lemma max_datetime_value: "max_datetime = 315537897600000000"
  by (simp add: max_datetime_def)

lemma stamps:
  "strptime_stamp ''2024-01-01_00-00'' = Some 63839664000000000"
  "strptime_stamp ''2024-01-09_00-00'' = Some 63840355200000000"
  "strptime_stamp ''2099-01-01_00-00'' = Some 66206505600000000"
  "strptime_stamp ''2023-01-01_00-00'' = Some 63808128000000000"
  "strptime_stamp ''latest'' = None"
  "strptime_stamp ''notes'' = None"
  by (simp_all add: stamp_defs digits)

lemma stems:
  "stem ''2024-01-01_00-00.json'' = ''2024-01-01_00-00''"
  "stem ''2024-01-09_00-00.json'' = ''2024-01-09_00-00''"
  "stem ''2099-01-01_00-00.json'' = ''2099-01-01_00-00''"
  "stem ''2023-01-01_00-00.json'' = ''2023-01-01_00-00''"
  "stem ''latest.json'' = ''latest''"
  "stem ''notes.json'' = ''notes''"
  by (simp_all add: stem_def)

lemma globs:
  "matches_json ''2024-01-01_00-00.json''"
  "matches_json ''2024-01-09_00-00.json''"
  "matches_json ''2099-01-01_00-00.json''"
  "matches_json ''2023-01-01_00-00.json''"
  "matches_json ''latest.json''"
  "matches_json ''notes.json''"
  by (simp_all add: matches_json_def suffix_to_prefix)

lemmas file_defs = carousell_file_def historical_file_def current_file_def future_file_def
  stale_file_def notes_file_def broken_file_def

lemma included_january:
  "included strptime_stamp (jan10_2024 - 30 * 86400000000) historical_file"
  "\<not> included strptime_stamp (jan10_2024 - 30 * 86400000000) (current_file ''latest.json'')"
  "included strptime_stamp (jan10_2024 - 30 * 86400000000) (current_file ''2024-01-09_00-00.json'')"
  "included strptime_stamp (jan10_2024 - 30 * 86400000000) future_file"
  "\<not> included strptime_stamp (jan10_2024 - 30 * 86400000000) stale_file"
  "\<not> included strptime_stamp (jan10_2024 - 30 * 86400000000) notes_file"
  "\<not> included strptime_stamp (jan10_2024 - 30 * 86400000000) broken_file"
  by (simp_all add: included_def file_defs stems stamps globs jan10_2024_value)

lemmas included_january_simp = included_january[simplified]

lemma january_in_range:
  "\<bar>30 :: int\<bar> \<le> 999999999" "0 \<le> jan10_2024 - 30 * 86400000000"
  "jan10_2024 - 30 * 86400000000 < max_datetime"
  by (simp_all add: jan10_2024_value max_datetime_value)

lemma glob_other_sources:
  "glob_json [historical_file, current_file nm] ''ebay'' = []"
  "glob_json [historical_file, current_file nm] ''slickdeals'' = []"
  by (simp_all add: glob_json_def file_defs)

lemma glob_carousell:
  "matches_json nm \<Longrightarrow>
   glob_json [historical_file, current_file nm] ''carousell'' = [historical_file, current_file nm]"
  by (simp add: glob_json_def file_defs globs)

lemma latest_is_current: "max_by_mtime historical_file [current_file nm] = current_file nm"
  by (simp add: file_defs)

lemma content_current: "content (current_file nm) = Some [priced ''carousell'' 60]"
  by (simp add: file_defs)

lemma scan_against_history:
  "scan_items [priced ''carousell'' 100, priced ''carousell'' 120, priced ''carousell'' 110]
     ''carousell'' default_z_threshold [priced ''carousell'' 60] []
   = Inr [(priced ''carousell'' 60)\<lparr>z_score := Some (- 5), flag := Some great_deal_flag\<rparr>]"
proof -
  have f: "[h \<leftarrow> [priced ''carousell'' 100, priced ''carousell'' 120, priced ''carousell'' 110].
             source h = Some ''carousell'']
     = [priced ''carousell'' 100, priced ''carousell'' 120, priced ''carousell'' 110]"
    using source_filter_priced[of "''carousell''" "[100, 120, 110]"] by simp
  have z: "calculate_zscore
             [priced ''carousell'' 100, priced ''carousell'' 120, priced ''carousell'' 110] 60
           = Inr (- 5)"
    by (simp add: calculate_zscore_def mean_def stdev_def)
  show ?thesis
    by (simp add: f z round2_minus_five default_z_threshold_def del: filter.simps)
qed

lemma score_against_itself:
  "\<exists>z. calculate_zscore
          [priced ''carousell'' 100, priced ''carousell'' 120, priced ''carousell'' 110,
           priced ''carousell'' 60] 60 = Inr z
       \<and> \<not> z < default_z_threshold"
proof -
  have "(25::real)\<^sup>2 \<le> 2075 / 3" by (simp add: power2_eq_square)
  then have "25 \<le> sqrt (2075 / 3)" by (rule real_le_rsqrt)
  then have n: "\<not> (60 - 195 / 2) / sqrt (2075 / 3) < default_z_threshold"
    by (simp add: default_z_threshold_def field_simps)
  have "calculate_zscore
          [priced ''carousell'' 100, priced ''carousell'' 120, priced ''carousell'' 110,
           priced ''carousell'' 60] 60
        = Inr ((60 - 195 / 2) / sqrt (2075 / 3))"
    by (simp add: calculate_zscore_def mean_def stdev_def power2_eq_square)
  with n show ?thesis by blast
qed

lemma scan_against_itself:
  "scan_items
     [priced ''carousell'' 100, priced ''carousell'' 120, priced ''carousell'' 110,
      priced ''carousell'' 60]
     ''carousell'' default_z_threshold [priced ''carousell'' 60] []
   = Inr []"
proof -
  have f: "[h \<leftarrow> [priced ''carousell'' 100, priced ''carousell'' 120, priced ''carousell'' 110,
                 priced ''carousell'' 60]. source h = Some ''carousell'']
     = [priced ''carousell'' 100, priced ''carousell'' 120, priced ''carousell'' 110,
        priced ''carousell'' 60]"
    using source_filter_priced[of "''carousell''" "[100, 120, 110, 60]"] by simp
  obtain z where z:
    "calculate_zscore
       [priced ''carousell'' 100, priced ''carousell'' 120, priced ''carousell'' 110,
        priced ''carousell'' 60] 60 = Inr z"
    "\<not> z < default_z_threshold"
    using score_against_itself by blast
  show ?thesis
    by (simp add: f z del: filter.simps)
qed

lemma analyze_deals_isolated:
  assumes "\<bar>days\<bar> \<le> 999999999" and "0 \<le> utcnow - days * 86400000000"
    and "utcnow - days * 86400000000 < max_datetime"
    and "included strptime (utcnow - days * 86400000000) historical_file"
    and "matches_json nm"
    and "\<not> included strptime (utcnow - days * 86400000000) (current_file nm)"
  shows "analyze_deals strptime utcnow [historical_file, current_file nm] days default_z_threshold
     = Inr [(priced ''carousell'' 60)\<lparr>z_score := Some (- 5), flag := Some great_deal_flag\<rparr>]"
proof -
  have l: "load_historical_data strptime utcnow [historical_file, current_file nm] days
     = Inr [priced ''carousell'' 100, priced ''carousell'' 120, priced ''carousell'' 110]"
    using assms(4,6)
    by (simp add: load_historical_data_eq[OF assms(1-3)] historical_file_def carousell_file_def)
  show ?thesis
    by (simp add: analyze_deals_def l sources_def glob_other_sources glob_carousell[OF assms(5)]
          latest_is_current content_current scan_against_history
          del: max_by_mtime.simps scan_items.simps)
qed

lemma analyze_deals_january:
  "analyze_deals strptime_stamp jan10_2024 [historical_file, current_file ''latest.json''] 30
     default_z_threshold
   = Inr [(priced ''carousell'' 60)\<lparr>z_score := Some (- 5), flag := Some great_deal_flag\<rparr>]"
  by (rule analyze_deals_isolated[OF january_in_range included_january(1) globs(5)
        included_january(2)])

lemma scan_items_skip:
  assumes "\<not> pos_price j"
  shows "scan_items h s t (xs @ j # ys) deals = scan_items h s t (xs @ ys) deals"
proof (induction xs arbitrary: deals)
  case Nil
  then show ?case using assms by (auto simp: not_pos_price_iff)
next
  case (Cons x xs)
  then show ?case by (simp add: Let_def split: sum.splits)
qed

lemma scan_items_pos:
  assumes "scan_items h s t items deals = Inr out" and "list_all pos_price deals"
  shows "list_all pos_price out"
  using assms
proof (induction items arbitrary: deals)
  case Nil
  then show ?case by simp
next
  case (Cons x xs)
  show ?case
  proof (cases "price_sgd x = None \<or> the (price_sgd x) \<le> 0")
    case True
    with Cons show ?thesis by simp
  next
    case False
    then have px: "pos_price x" using not_pos_price_iff by blast
    obtain z where z: "calculate_zscore [h' \<leftarrow> h. source h' = Some s] (the (price_sgd x)) = Inr z"
      using calculate_zscore_returns by blast
    show ?thesis
    proof (cases "z < t")
      case True
      have "list_all pos_price
              (deals @ [x\<lparr>z_score := Some (round2 z), flag := Some great_deal_flag\<rparr>])"
        using Cons.prems(2) px by simp
      moreover have "scan_items h s t xs
              (deals @ [x\<lparr>z_score := Some (round2 z), flag := Some great_deal_flag\<rparr>]) = Inr out"
        using Cons.prems(1) False z True by (simp add: Let_def)
      ultimately show ?thesis using Cons.IH by blast
    next
      case nt: False
      then have "scan_items h s t xs deals = Inr out"
        using Cons.prems(1) False z by (simp add: Let_def)
      then show ?thesis using Cons.IH Cons.prems(2) by blast
    qed
  qed
qed

lemma scan_sources_pos:
  assumes "scan_sources d h t srcs deals = Inr out" and "list_all pos_price deals"
  shows "list_all pos_price out"
  using assms
proof (induction srcs arbitrary: deals)
  case Nil
  then show ?case by simp
next
  case (Cons s srcs)
  show ?case
  proof (cases "glob_json d s")
    case Nil
    with Cons show ?thesis by simp
  next
    case files: (Cons f fs)
    show ?thesis
    proof (cases "content (max_by_mtime f fs)")
      case None
      with files Cons.prems Cons.IH show ?thesis by simp
    next
      case (Some cur)
      show ?thesis
      proof (cases "scan_items h s t cur deals")
        case (Inl e)
        with Cons.prems files Some show ?thesis by simp
      next
        case (Inr deals')
        then have "list_all pos_price deals'" using scan_items_pos Cons.prems(2) by blast
        moreover have "scan_sources d h t srcs deals' = Inr out"
          using Cons.prems(1) files Some Inr by simp
        ultimately show ?thesis using Cons.IH by blast
      qed
    qed
  qed
qed

lemma analyze_deals_pos:
  assumes "analyze_deals strptime utcnow d days t = Inr out"
  shows "list_all pos_price out"
  using assms scan_sources_pos[of d _ t sources "[]" out]
  by (auto simp: analyze_deals_def split: sum.splits)

text \<open>
  Claim C1, as amended. Two carousell snapshots, the historical one with prices 100, 120, 110
  inside the lookback window and the current one (the latest by modification time) with a
  single listing at 60: when the current file is not itself among the files the loader takes
  (its name is no timestamp, or its timestamp lies before the window), the analysis returns
  exactly one deal, with z_score (60 - 110) / 10 = -5.0, below the default threshold.
\<close>

theorem end_to_end_one_deal:
  assumes "\<bar>days\<bar> \<le> 999999999" and "0 \<le> utcnow - days * 86400000000"
    and "utcnow - days * 86400000000 < max_datetime"
    and "included strptime (utcnow - days * 86400000000) historical_file"
    and "matches_json nm"
    and "\<not> included strptime (utcnow - days * 86400000000) (current_file nm)"
  shows "analyze_deals strptime utcnow [historical_file, current_file nm] days default_z_threshold
     = Inr [(priced ''carousell'' 60)\<lparr>z_score := Some (- 5), flag := Some great_deal_flag\<rparr>]
     \<and> - 5 < default_z_threshold"
  using analyze_deals_isolated[OF assms] by (simp add: default_z_threshold_def)

theorem end_to_end_one_deal_witness:
  "analyze_deals strptime_stamp jan10_2024 [historical_file, current_file ''latest.json''] 30
     default_z_threshold
   = Inr [(priced ''carousell'' 60)\<lparr>z_score := Some (- 5), flag := Some great_deal_flag\<rparr>]"
  using end_to_end_one_deal[OF january_in_range included_january(1) globs(5) included_january(2)]
  by simp

text \<open>
  Claim C1 as stated fails: the loader reads every snapshot below the data directory, the
  current one too. With the current file named 2024-01-09_00-00.json (run on 2024-01-10,
  30 days of lookback) the pool is 100, 120, 110, 60, the score of 60 is about -1.43, and
  no deal is returned.
\<close>

theorem end_to_end_one_deal_counterexample:
  "load_historical_data strptime_stamp jan10_2024
     [historical_file, current_file ''2024-01-09_00-00.json''] 30
   = Inr [priced ''carousell'' 100, priced ''carousell'' 120, priced ''carousell'' 110,
          priced ''carousell'' 60]
   \<and> analyze_deals strptime_stamp jan10_2024
       [historical_file, current_file ''2024-01-09_00-00.json''] 30 default_z_threshold
     = Inr []"
proof -
  have l: "load_historical_data strptime_stamp jan10_2024
     [historical_file, current_file ''2024-01-09_00-00.json''] 30
   = Inr [priced ''carousell'' 100, priced ''carousell'' 120, priced ''carousell'' 110,
          priced ''carousell'' 60]"
    by (simp add: load_historical_data_eq[OF january_in_range] included_january_simp)
       (simp add: file_defs)
  then show ?thesis
    by (simp add: analyze_deals_def sources_def glob_other_sources glob_carousell globs
          latest_is_current content_current scan_against_itself
          del: max_by_mtime.simps scan_items.simps)
qed

text \<open>
  Claim C3, as amended. A listing without a positive price never enters the mean or the
  standard deviation: it is not among the prices the statistics are computed from, and
  adding it to or removing it from a pool that has at least three listings either way
  leaves the score unchanged. As a current listing it is passed over: the deals are those
  of the snapshot without it, and every deal returned has a positive price.
\<close>

theorem nonpositive_price_outside_statistics:
  assumes "\<not> pos_price j"
  shows "positive_prices (xs @ j # ys) = positive_prices (xs @ ys)
     \<and> (3 \<le> length (xs @ ys) \<longrightarrow>
          calculate_zscore (xs @ j # ys) c = calculate_zscore (xs @ ys) c)
     \<and> scan_items historical src z_threshold (before @ j # after) deals
         = scan_items historical src z_threshold (before @ after) deals
     \<and> (analyze_deals strptime utcnow data_dir days z_threshold = Inr out \<longrightarrow>
          list_all pos_price out)"
  using positive_prices_skip[OF assms] calculate_zscore_skip[OF assms]
    scan_items_skip[OF assms] analyze_deals_pos
  by blast

theorem nonpositive_price_outside_statistics_witness:
  "\<not> pos_price (unpriced ''carousell'')
   \<and> calculate_zscore (spread_pool @ unpriced ''carousell'' # []) 80
       = calculate_zscore (spread_pool @ []) 80
   \<and> scan_items spread_pool ''carousell'' default_z_threshold
        ([priced ''carousell'' 80] @ unpriced ''carousell'' # []) []
      = scan_items spread_pool ''carousell'' default_z_threshold ([priced ''carousell'' 80] @ []) []
   \<and> list_all pos_price
        [(priced ''carousell'' 60)\<lparr>z_score := Some (- 5), flag := Some great_deal_flag\<rparr>]"
proof -
  have h: "\<not> pos_price (unpriced ''carousell'')"
    by (simp add: pos_price_def unpriced_def)
  have n: "3 \<le> length (spread_pool @ [])" by (simp add: spread_pool_def)
  note t = nonpositive_price_outside_statistics[OF h,
      where xs = spread_pool and ys = "[]" and c = 80 and historical = spread_pool
        and src = "''carousell''" and z_threshold = default_z_threshold
        and before = "[priced ''carousell'' 80]" and after = "[]" and deals = "[]"
        and strptime = strptime_stamp and utcnow = jan10_2024
        and data_dir = "[historical_file, current_file ''latest.json'']" and days = 30
        and out = "[(priced ''carousell'' 60)\<lparr>z_score := Some (- 5), flag := Some great_deal_flag\<rparr>]"]
  show ?thesis using h n t analyze_deals_january by blast
qed

text \<open>
  Claim C3 as stated fails: the two-listing pool 100, 120 scores 60 at the neutral 0.0, and
  the same pool with one zero-price listing added scores it at -50 / sqrt 200, about -3.54.
\<close>

theorem nonpositive_price_changes_score_counterexample:
  "\<not> pos_price (priced ''carousell'' 0)
   \<and> calculate_zscore pair_pool 60 = Inr 0
   \<and> calculate_zscore (pair_pool @ [priced ''carousell'' 0]) 60 = Inr (- 50 / sqrt 200)
   \<and> - 50 / sqrt 200 < default_z_threshold"
proof -
  have "sqrt 200 < 15" by (intro real_less_lsqrt) auto
  moreover have "0 < sqrt 200" by simp
  ultimately have "- 50 / sqrt 200 < default_z_threshold"
    by (simp add: default_z_threshold_def field_simps)
  then show ?thesis
    by (simp add: pair_pool_def calculate_zscore_def mean_def stdev_def)
qed

text \<open>
  Claim C5, as amended. Whether the loader raises depends on the lookback alone (the date
  arithmetic before the loop overflows or not), never on a file. When it returns, it
  returns, in the order of the directory walk, the listings of exactly those \<open>*.json\<close>
  files whose stem parses as a timestamp not earlier than now - lookback (there is no upper
  bound at now) and whose content decodes. A file whose name does not parse, whose
  timestamp is older, or whose content does not decode is skipped, and the result is the
  same as without that file.
\<close>

theorem loader_takes_files_from_cutoff:
  "load_historical_data strptime utcnow data_dir days =
     (if \<bar>days\<bar> \<le> 999999999 \<and> 0 \<le> utcnow - days * 86400000000
          \<and> utcnow - days * 86400000000 < max_datetime
      then Inr (concat (map (\<lambda>f. the (content f))
                  [f \<leftarrow> data_dir. included strptime (utcnow - days * 86400000000) f]))
      else Inl OverflowError)
   \<and> (\<not> included strptime (utcnow - days * 86400000000) g \<longrightarrow>
        load_historical_data strptime utcnow (fs @ g # gs) days
        = load_historical_data strptime utcnow (fs @ gs) days)"
proof (cases "\<bar>days\<bar> \<le> 999999999 \<and> 0 \<le> utcnow - days * 86400000000
                \<and> utcnow - days * 86400000000 < max_datetime")
  case True
  then show ?thesis by (simp add: load_historical_data_eq)
next
  case False
  then show ?thesis by (simp add: load_historical_data_overflow)
qed

theorem loader_takes_files_from_cutoff_witness:
  "load_historical_data strptime_stamp jan10_2024
     [stale_file, notes_file, historical_file, broken_file] 30
   = Inr [priced ''carousell'' 100, priced ''carousell'' 120, priced ''carousell'' 110]
   \<and> load_historical_data strptime_stamp jan10_2024 ([stale_file] @ notes_file # [historical_file]) 30
     = load_historical_data strptime_stamp jan10_2024 ([stale_file] @ [historical_file]) 30"
proof -
  note t = loader_takes_files_from_cutoff[
      where strptime = strptime_stamp and utcnow = jan10_2024 and days = 30
        and g = notes_file and fs = "[stale_file]" and gs = "[historical_file]"
        and data_dir = "[stale_file, notes_file, historical_file, broken_file]"]
  have "content historical_file
          = Some [priced ''carousell'' 100, priced ''carousell'' 120, priced ''carousell'' 110]"
    by (simp add: file_defs)
  then show ?thesis using t january_in_range included_january_simp by simp
qed

text \<open>
  Claim C5 as stated fails at the upper end of the window: on 2024-01-10 a snapshot named
  2099-01-01_00-00.json, whose timestamp is later than now, is loaded.
\<close>

theorem loader_window_upper_bound_counterexample:
  "strptime_stamp (stem (name future_file)) = Some 66206505600000000
   \<and> jan10_2024 < 66206505600000000
   \<and> load_historical_data strptime_stamp jan10_2024 [future_file] 30
       = Inr [priced ''carousell'' 77]"
proof -
  have "content future_file = Some [priced ''carousell'' 77]" "name future_file = ''2099-01-01_00-00.json''"
    by (simp_all add: file_defs)
  moreover have "jan10_2024 < 66206505600000000"
    by (simp add: jan10_2024_value)
  ultimately show ?thesis
    by (simp add: load_historical_data_eq[OF january_in_range] included_january_simp stems stamps)
qed

section \<open>Properties of the scraper\<close>

lemma scrape_curl_cffi_empty: "scrape_curl_cffi w search_query proxy_url max_results = Inr []"
  by (simp add: scrape_curl_cffi_def curl_cffi_try_def Let_def split: sum.splits)

lemma main_loop_eq:
  "main_loop py_float w proxy_url proxy_conf queries (all_results, calls) =
     Inr (all_results @
            concat (map (\<lambda>q. case scrape_playwright py_float w q proxy_conf 50 of
                               Inl e \<Rightarrow> [] | Inr results \<Rightarrow> results) queries),
          calls @
            concat (map (\<lambda>q. case scrape_playwright py_float w q proxy_conf 50 of
                               Inl e \<Rightarrow> [Primary q, Backup q] | Inr results \<Rightarrow> [Primary q]) queries))"
proof (induction queries arbitrary: all_results calls)
  case Nil
  then show ?case by simp
next
  case (Cons q queries)
  show ?case
  proof (cases "scrape_playwright py_float w q proxy_conf 50")
    case (Inl e)
    then show ?thesis by (simp add: scrape_curl_cffi_empty Cons.IH)
  next
    case (Inr results)
    then show ?thesis by (simp add: Cons.IH)
  qed
qed

















text \<open>
  Claim C9. The backup strategy returns a list for every query, proxy string and world and
  never raises; with the client library missing, with an exception from the fetch, with
  a status other than 200, and with a block marker in the page, the list is empty.
\<close>

theorem backup_never_raises:
  "(\<exists>results. scrape_curl_cffi w search_query proxy_url max_results = Inr results)
   \<and> (\<not> curl_cffi_available w \<longrightarrow>
        scrape_curl_cffi w search_query proxy_url max_results = Inr [])
   \<and> (http_get w (search_address search_query) (proxies_dict proxy_url) = Inl e \<longrightarrow>
        scrape_curl_cffi w search_query proxy_url max_results = Inr [])
   \<and> (http_get w (search_address search_query) (proxies_dict proxy_url) = Inr r
        \<and> (status_code r \<noteq> 200 \<or> sublist ''Access Denied'' (response_text r)
            \<or> sublist ''Cloudflare'' (response_text r)) \<longrightarrow>
        scrape_curl_cffi w search_query proxy_url max_results = Inr [])"
  by (simp add: scrape_curl_cffi_def curl_cffi_try_def Let_def split: sum.splits)

theorem backup_never_raises_witness:
  "scrape_curl_cffi (scraper_world False (Inl (Exception ''unused''))) ''x399'' None 50 = Inr []
   \<and> scrape_curl_cffi (scraper_world True (Inl (Exception ''timed out''))) ''x399''
        (Some ''socks5://u:p@10.0.0.1:1080'') 50 = Inr []
   \<and> scrape_curl_cffi
        (scraper_world True (Inr \<lparr>status_code = 403, response_text = ''Forbidden''\<rparr>)) ''x399''
        None 50 = Inr []
   \<and> scrape_curl_cffi
        (scraper_world True (Inr \<lparr>status_code = 200, response_text = ''Access Denied''\<rparr>)) ''x399''
        None 50 = Inr []"
proof -
  have a: "\<not> curl_cffi_available (scraper_world False (Inl (Exception ''unused'')))"
    by (simp add: scraper_world_def)
  have b: "http_get (scraper_world True (Inl (Exception ''timed out''))) (search_address ''x399'')
             (proxies_dict (Some ''socks5://u:p@10.0.0.1:1080'')) = Inl (Exception ''timed out'')"
    by (simp add: scraper_world_def)
  have c: "http_get (scraper_world True (Inr \<lparr>status_code = 403, response_text = ''Forbidden''\<rparr>))
             (search_address ''x399'') (proxies_dict None)
           = Inr \<lparr>status_code = 403, response_text = ''Forbidden''\<rparr>"
    by (simp add: scraper_world_def)
  have d: "http_get (scraper_world True (Inr \<lparr>status_code = 200, response_text = ''Access Denied''\<rparr>))
             (search_address ''x399'') (proxies_dict None)
           = Inr \<lparr>status_code = 200, response_text = ''Access Denied''\<rparr>"
    by (simp add: scraper_world_def)
  show ?thesis
    using a b c d
      backup_never_raises[of "scraper_world False (Inl (Exception ''unused''))" "''x399''" None 50]
      backup_never_raises[of "scraper_world True (Inl (Exception ''timed out''))" "''x399''"
        "Some ''socks5://u:p@10.0.0.1:1080''" 50 "Exception ''timed out''"]
      backup_never_raises[of
        "scraper_world True (Inr \<lparr>status_code = 403, response_text = ''Forbidden''\<rparr>)" "''x399''"
        None 50 _ "\<lparr>status_code = 403, response_text = ''Forbidden''\<rparr>"]
      backup_never_raises[of
        "scraper_world True (Inr \<lparr>status_code = 200, response_text = ''Access Denied''\<rparr>)"
        "''x399''" None 50 _ "\<lparr>status_code = 200, response_text = ''Access Denied''\<rparr>"]
    by simp
qed

text \<open>
  Claim C10. The backup strategy returns the empty list in every world, also for a 200
  response without block markers, so in the loop a query whose primary strategy raises adds
  no listing to the batch.
\<close>

theorem backup_always_empty:
  "scrape_curl_cffi w search_query proxy_url max_results = Inr []
   \<and> (scrape_playwright py_float w query proxy_conf 50 = Inl e \<longrightarrow>
        main_loop py_float w proxy_url proxy_conf [query] (all_results, calls)
        = Inr (all_results, calls @ [Primary query, Backup query]))
   \<and> (\<exists>calls'.
        main_loop py_float w proxy_url proxy_conf queries ([], []) =
          Inr (concat (map (\<lambda>q. case scrape_playwright py_float w q proxy_conf 50 of
                                 Inl e \<Rightarrow> [] | Inr results \<Rightarrow> results) queries),
               calls'))"
  by (simp add: scrape_curl_cffi_empty main_loop_eq)

theorem backup_always_empty_witness:
  "scrape_curl_cffi
     (scraper_world True (Inr \<lparr>status_code = 200, response_text = ''<html>X399</html>''\<rparr>))
     ''x399'' None 50 = Inr []
   \<and> main_loop float_of_digits
       (scraper_world True (Inr \<lparr>status_code = 200, response_text = ''<html>X399</html>''\<rparr>))
       None None [''x399''] ([], [])
     = Inr ([], [Primary ''x399'', Backup ''x399''])"
proof -
  let ?w = "scraper_world True (Inr \<lparr>status_code = 200, response_text = ''<html>X399</html>''\<rparr>)"
  have x: "scrape_playwright float_of_digits ?w ''x399'' None 50
           = Inl (Exception ''Selector timeout - possible change in structure or blocking'')"
    by (simp add: scrape_playwright_def scraper_world_def blocked_session_def Let_def
          sublist_code)
  show ?thesis
    using x backup_always_empty[where w = ?w and search_query = "''x399''" and proxy_url = None
        and max_results = 50 and py_float = float_of_digits and query = "''x399''"
        and proxy_conf = None
        and e = "Exception ''Selector timeout - possible change in structure or blocking''"
        and all_results = "[]" and calls = "[]" and queries = "[]"]
    by simp
qed

end
